theory Spec2Isabelle
  imports Complex_Main "HOL-Library.Multiset"
begin

section \<open>JavaScript numbers\<close>

text \<open>
  The backend (\<^verbatim>\<open>backend/index.js\<close>) computes with JavaScript numbers, which are
  binary64 floating-point numbers. A number is modelled as a finite value, \<open>NaN\<close>, or
  one of the two infinities. A finite value is the rational it denotes; the sign of
  zero is not kept. A value that may be \<^verbatim>\<open>null\<close> is a \<open>jsnum option\<close>, with \<open>None\<close>
  for \<^verbatim>\<open>null\<close>.
\<close>

datatype jsnum = Num rat | NaN | PosInf | NegInf

text \<open>
  Rounding a rational to binary64, to the nearest number and to the even one of two
  nearest. A number other than zero of magnitude \<open>a\<close> with \<open>2^e \<le> a < 2^(e+1)\<close> is
  rounded to a multiple of \<open>2^(e-52)\<close> (53 significant bits); below \<open>2^-1022\<close> the
  multiples are those of \<open>2^-1074\<close> (subnormal numbers); a result that reaches
  \<open>2^1024\<close> is an infinity.
\<close>

text \<open>The number of binary digits of a positive integer.\<close>

function bit_length :: "int \<Rightarrow> int" where
  "bit_length n = (if n \<le> 0 then 0 else bit_length (n div 2) + 1)"
  by pat_completeness auto
termination
  by (relation "measure nat") auto

declare bit_length.simps [simp del]

definition pow2 :: "int \<Rightarrow> rat" where
  "pow2 e = (if 0 \<le> e then 2 ^ nat e else 1 / 2 ^ nat (- e))"

text \<open>The exponent \<open>e\<close> with \<open>2^e \<le> a < 2^(e+1)\<close>, for \<open>a\<close> above zero.\<close>

definition ilog2 :: "rat \<Rightarrow> int" where
  "ilog2 a =
     (if 1 \<le> a then bit_length \<lfloor>a\<rfloor> - 1
      else - bit_length (\<lceil>1 / a\<rceil> - 1))"

definition round_half_even :: "rat \<Rightarrow> int" where
  "round_half_even y =
     (let n = \<lfloor>y\<rfloor>; d = y - of_int n
      in if d < 1 / 2 then n else if 1 / 2 < d then n + 1 else if even n then n else n + 1)"

definition to_binary64 :: "rat \<Rightarrow> jsnum" where
  "to_binary64 x =
     (if x = 0 then Num 0
      else
        let a = \<bar>x\<bar>;
            e = max (ilog2 a) (- 1022);
            q = pow2 (e - 52);
            r = of_int (round_half_even (a / q)) * q
        in if pow2 1024 \<le> r then (if x < 0 then NegInf else PosInf)
           else Num (if x < 0 then - r else r))"

text \<open>\<^verbatim>\<open>a * b\<close> on numbers: the product, rounded to binary64.\<close>

fun js_mul :: "jsnum \<Rightarrow> jsnum \<Rightarrow> jsnum" where
  "js_mul NaN _ = NaN"
| "js_mul _ NaN = NaN"
| "js_mul (Num a) (Num b) = to_binary64 (a * b)"
| "js_mul (Num a) PosInf = (if a = 0 then NaN else if 0 < a then PosInf else NegInf)"
| "js_mul (Num a) NegInf = (if a = 0 then NaN else if 0 < a then NegInf else PosInf)"
| "js_mul PosInf (Num b) = (if b = 0 then NaN else if 0 < b then PosInf else NegInf)"
| "js_mul NegInf (Num b) = (if b = 0 then NaN else if 0 < b then NegInf else PosInf)"
| "js_mul PosInf PosInf = PosInf"
| "js_mul PosInf NegInf = NegInf"
| "js_mul NegInf PosInf = NegInf"
| "js_mul NegInf NegInf = PosInf"

text \<open>
  \<^verbatim>\<open>a + b\<close> on numbers. The sum of two finite numbers is kept exact here: the
  rounding of the additions that make up the total of a view is not modelled.
\<close>

fun js_add :: "jsnum \<Rightarrow> jsnum \<Rightarrow> jsnum" where
  "js_add NaN _ = NaN"
| "js_add _ NaN = NaN"
| "js_add (Num a) (Num b) = Num (a + b)"
| "js_add (Num a) PosInf = PosInf"
| "js_add (Num a) NegInf = NegInf"
| "js_add PosInf (Num b) = PosInf"
| "js_add NegInf (Num b) = NegInf"
| "js_add PosInf PosInf = PosInf"
| "js_add PosInf NegInf = NaN"
| "js_add NegInf PosInf = NaN"
| "js_add NegInf NegInf = NegInf"

text \<open>Truthiness of a number: \<open>0\<close> and \<open>NaN\<close> are falsy.\<close>

fun num_truthy :: "jsnum \<Rightarrow> bool" where
  "num_truthy (Num q) = (q \<noteq> 0)"
| "num_truthy NaN = False"
| "num_truthy PosInf = True"
| "num_truthy NegInf = True"

text \<open>
  \<^verbatim>\<open>Number(x.toFixed(f))\<close>. For a finite \<open>x\<close>, \<^verbatim>\<open>toFixed\<close> takes the sign off, picks
  the integer \<open>n\<close> for which \<open>n / 10^f - x\<close> is as close to zero as possible (the larger
  \<open>n\<close> when there are two; \<open>x\<close> is the exact value of the binary64 number), and
  prints \<open>n\<close> with a decimal point before its last \<open>f\<close> digits; \<^verbatim>\<open>Number\<close> reads
  that decimal back as the nearest binary64 number. From \<open>10^21\<close> on \<^verbatim>\<open>toFixed\<close>
  prints the number itself, and reading that back gives the number. \<open>NaN\<close> and the
  infinities print as their names and are read back unchanged.
\<close>

definition nearest_scaled :: "nat \<Rightarrow> rat \<Rightarrow> int" where
  "nearest_scaled f x =
     (let y = x * 10 ^ f; n = \<lfloor>y\<rfloor> in if y - of_int n < 1 / 2 then n else n + 1)"

fun Number_toFixed :: "nat \<Rightarrow> jsnum \<Rightarrow> jsnum" where
  "Number_toFixed f (Num x) =
     (if 10 ^ 21 \<le> \<bar>x\<bar> then Num x
      else if x < 0 then to_binary64 (- (of_int (nearest_scaled f (- x)) / 10 ^ f))
      else to_binary64 (of_int (nearest_scaled f x) / 10 ^ f))"
| "Number_toFixed f NaN = NaN"
| "Number_toFixed f PosInf = PosInf"
| "Number_toFixed f NegInf = NegInf"

section \<open>Strings\<close>

text \<open>
  Ticker symbols are ASCII strings. \<^verbatim>\<open>toUpperCase\<close> maps the letters \<open>a\<close> to \<open>z\<close> to
  \<open>A\<close> to \<open>Z\<close> and leaves every other ASCII character as it is.
\<close>

definition is_lower :: "char \<Rightarrow> bool" where
  "is_lower c = (97 \<le> (of_char c :: nat) \<and> (of_char c :: nat) \<le> 122)"

definition upper_char :: "char \<Rightarrow> char" where
  "upper_char c = (if is_lower c then char_of ((of_char c :: nat) - 32) else c)"

definition toUpperCase :: "string \<Rightarrow> string" where
  "toUpperCase s = map upper_char s"

subsection \<open>parseFloat\<close>

text \<open>
  \<^verbatim>\<open>parseFloat(s)\<close> skips leading white space, then reads the longest prefix that is a
  decimal literal: an optional sign, then either \<^verbatim>\<open>Infinity\<close> or digits with an optional
  fraction and an optional exponent (at least one digit before or after the point; an
  exponent counts only with at least one digit of its own). With no such prefix the
  result is \<open>NaN\<close>; otherwise it is the binary64 number nearest to the value of the
  literal. Whatever follows the prefix is ignored.
\<close>

definition is_ws :: "char \<Rightarrow> bool" where
  "is_ws c = ((of_char c :: nat) \<in> {9, 10, 11, 12, 13, 32})"

definition is_digit :: "char \<Rightarrow> bool" where
  "is_digit c = (48 \<le> (of_char c :: nat) \<and> (of_char c :: nat) \<le> 57)"

definition digits_value :: "string \<Rightarrow> nat" where
  "digits_value ds = foldl (\<lambda>a c. 10 * a + ((of_char c :: nat) - 48)) 0 ds"

definition pow10 :: "int \<Rightarrow> rat" where
  "pow10 e = (if 0 \<le> e then 10 ^ nat e else 1 / 10 ^ nat (- e))"

text \<open>The sign in front of a literal or of an exponent, and the rest of the text.\<close>

fun take_sign :: "string \<Rightarrow> bool \<times> string" where
  "take_sign [] = (False, [])"
| "take_sign (c # cs) =
     (if c = CHR ''-'' then (True, cs) else if c = CHR ''+'' then (False, cs)
      else (False, c # cs))"

text \<open>The exponent part at the head of the text, or \<open>0\<close> when there is none.\<close>

fun exponent_part :: "string \<Rightarrow> int" where
  "exponent_part [] = 0"
| "exponent_part (c # cs) =
     (if c = CHR ''e'' \<or> c = CHR ''E'' then
        (let (neg, r) = take_sign cs; ds = takeWhile is_digit r
         in if ds = [] then 0
            else if neg then - int (digits_value ds) else int (digits_value ds))
      else 0)"

text \<open>The fraction digits after a decimal point at the head of the text, and the rest.\<close>

fun fraction_part :: "string \<Rightarrow> string \<times> string" where
  "fraction_part [] = ([], [])"
| "fraction_part (c # cs) =
     (if c = CHR ''.'' then (takeWhile is_digit cs, dropWhile is_digit cs)
      else ([], c # cs))"

definition parseFloat :: "string \<Rightarrow> jsnum" where
  "parseFloat s =
     (let (neg, u) = take_sign (dropWhile is_ws s) in
      if take 8 u = ''Infinity'' then (if neg then NegInf else PosInf)
      else
        let ip = takeWhile is_digit u;
            (fp, r) = fraction_part (dropWhile is_digit u)
        in if ip = [] \<and> fp = [] then NaN
           else
             let m = of_nat (digits_value ip) + of_nat (digits_value fp) / 10 ^ length fp;
                 v = m * pow10 (exponent_part r)
             in to_binary64 (if neg then - v else v))"

section \<open>The quote provider's answer\<close>

text \<open>
  \<^verbatim>\<open>await res.json()\<close> yields a JSON value. An object is the list of its own
  properties. A number is held as the finite binary64 value it was read as.
\<close>

datatype json =
    JNull
  | JBool bool
  | JNum rat
  | JStr string
  | JArr "json list"
  | JObj "(string \<times> json) list"

text \<open>Truthiness of a JSON value, with \<open>None\<close> for \<^verbatim>\<open>undefined\<close>.\<close>

fun truthy :: "json option \<Rightarrow> bool" where
  "truthy None = False"
| "truthy (Some JNull) = False"
| "truthy (Some (JBool b)) = b"
| "truthy (Some (JNum q)) = (q \<noteq> 0)"
| "truthy (Some (JStr s)) = (s \<noteq> [])"
| "truthy (Some (JArr xs)) = True"
| "truthy (Some (JObj ps)) = True"

datatype js_error = TypeError | FetchError

text \<open>
  \<^verbatim>\<open>v[k]\<close> for one of the two keys the program reads, \<^verbatim>\<open>'Global Quote'\<close> and
  \<^verbatim>\<open>'05. price'\<close>. Reading a property of \<^verbatim>\<open>null\<close> raises a TypeError. Neither key
  is an index, \<^verbatim>\<open>length\<close> or a method, so a string, a number, a boolean and an array
  have no such property and give \<^verbatim>\<open>undefined\<close>.
\<close>

fun get_prop :: "json \<Rightarrow> string \<Rightarrow> js_error + json option" where
  "get_prop JNull k = Inl TypeError"
| "get_prop (JObj ps) k = Inr (map_of ps k)"
| "get_prop (JBool b) k = Inr None"
| "get_prop (JNum q) k = Inr None"
| "get_prop (JStr s) k = Inr None"
| "get_prop (JArr xs) k = Inr None"

text \<open>
  \<^verbatim>\<open>parseFloat(v)\<close> on a JSON value: \<^verbatim>\<open>parseFloat\<close> first turns its argument into a
  string. A number prints as a decimal that reads back as itself. \<^verbatim>\<open>true\<close>,
  \<^verbatim>\<open>false\<close>, \<^verbatim>\<open>null\<close> and \<^verbatim>\<open>[object Object]\<close> start with no literal. An array
  prints its elements separated by commas (\<^verbatim>\<open>null\<close> as the empty string), so the
  literal, if any, is the one at the head of the first element.
\<close>

fun parseFloat_json :: "json \<Rightarrow> jsnum" where
  "parseFloat_json (JStr s) = parseFloat s"
| "parseFloat_json (JNum q) = Num q"
| "parseFloat_json (JBool b) = NaN"
| "parseFloat_json JNull = NaN"
| "parseFloat_json (JObj ps) = NaN"
| "parseFloat_json (JArr []) = NaN"
| "parseFloat_json (JArr (x # xs)) = parseFloat_json x"

section \<open>The price cache and \<^verbatim>\<open>fetchCurrentPrice\<close>\<close>

text \<open>
  \<^verbatim>\<open>priceCache\<close> maps an upper-case symbol to \<^verbatim>\<open>{ price: number|null, ts: epoch_ms }\<close>.
  Every key is the result of \<^verbatim>\<open>toUpperCase\<close>, so no key names a property that the
  object inherits, and the cache is a finite map.
\<close>

record cache_entry =
  price :: "jsnum option"
  ts :: int

type_synonym price_cache = "string \<rightharpoonup> cache_entry"

definition CACHE_TTL_MS :: int where
  "CACHE_TTL_MS = 60000"

text \<open>
  The request sent to the quote provider is determined by the cache key and the API key
  (the URL carries both). The network answers a request either by raising
  (\<^verbatim>\<open>fetch\<close> rejects, or the body is not JSON) or with a JSON value.
\<close>

datatype request = GlobalQuote string string

datatype response = Rejects | Resolves json

type_synonym network = "request \<Rightarrow> response"

text \<open>Lines 48 to 50: from the parsed body to the price.\<close>

definition extract_price :: "json \<Rightarrow> js_error + jsnum option" where
  "extract_price data =
     (case get_prop data ''Global Quote'' of
        Inl e \<Rightarrow> Inl e
      | Inr q \<Rightarrow>
          (let quote = (case q of None \<Rightarrow> JObj [] | Some v \<Rightarrow> if truthy (Some v) then v else JObj [])
           in case get_prop quote ''05. price'' of
                Inl e \<Rightarrow> Inl e
              | Inr p \<Rightarrow>
                  (let priceStr = (case p of None \<Rightarrow> JNull | Some v \<Rightarrow> v)
                   in Inr (if truthy (Some priceStr) then Some (parseFloat_json priceStr)
                           else None))))"

text \<open>The body of the \<^verbatim>\<open>try\<close> block, up to the value of \<^verbatim>\<open>price\<close>.\<close>

definition try_fetch :: "network \<Rightarrow> request \<Rightarrow> js_error + jsnum option" where
  "try_fetch net req =
     (case net req of Rejects \<Rightarrow> Inl FetchError | Resolves data \<Rightarrow> extract_price data)"

text \<open>
  What a call leaves behind: the value it returns, the cache after it, and the requests
  it sent to the quote provider.
\<close>

record outcome =
  result :: "jsnum option"
  cache_after :: price_cache
  fetches :: "request list"

text \<open>
  Lines 33 to 58, the path taken without a fresh entry. \<^verbatim>\<open>process.env.ALPHA_VANTAGE_KEY\<close>
  is \<^verbatim>\<open>undefined\<close> (\<open>None\<close>) or a string; \<^verbatim>\<open>!apiKey\<close> holds for \<^verbatim>\<open>undefined\<close> and
  for the empty string.
\<close>

definition refresh :: "string option \<Rightarrow> network \<Rightarrow> int \<Rightarrow> price_cache \<Rightarrow> string \<Rightarrow> outcome" where
  "refresh apiKey net now priceCache key =
     (case apiKey of
        None \<Rightarrow>
          \<lparr>result = None, cache_after = priceCache(key \<mapsto> \<lparr>price = None, ts = now\<rparr>),
           fetches = []\<rparr>
      | Some k \<Rightarrow>
          if k = [] then
            \<lparr>result = None, cache_after = priceCache(key \<mapsto> \<lparr>price = None, ts = now\<rparr>),
             fetches = []\<rparr>
          else
            (case try_fetch net (GlobalQuote key k) of
               Inl err \<Rightarrow>
                 \<lparr>result = None, cache_after = priceCache(key \<mapsto> \<lparr>price = None, ts = now\<rparr>),
                  fetches = [GlobalQuote key k]\<rparr>
             | Inr p \<Rightarrow>
                 \<lparr>result = p, cache_after = priceCache(key \<mapsto> \<lparr>price = p, ts = now\<rparr>),
                  fetches = [GlobalQuote key k]\<rparr>))"

text \<open>
  \<^verbatim>\<open>fetchCurrentPrice(symbol)\<close>, with the value of \<^verbatim>\<open>Date.now()\<close>, the environment's
  API key, the network and the cache as arguments.
\<close>

definition fetchCurrentPrice ::
  "string option \<Rightarrow> network \<Rightarrow> int \<Rightarrow> price_cache \<Rightarrow> string \<Rightarrow> outcome" where
  "fetchCurrentPrice apiKey net now priceCache symbol =
     (let key = toUpperCase symbol in
      case priceCache key of
        None \<Rightarrow> refresh apiKey net now priceCache key
      | Some cached \<Rightarrow>
          if now - ts cached < CACHE_TTL_MS then
            \<lparr>result = price cached, cache_after = priceCache, fetches = []\<rparr>
          else refresh apiKey net now priceCache key)"

section \<open>The aggregation query\<close>

text \<open>
  A row of the table \<^verbatim>\<open>trades\<close>, with the columns the query reads: \<^verbatim>\<open>symbol\<close>,
  \<^verbatim>\<open>quantity\<close>, \<^verbatim>\<open>price\<close> and \<^verbatim>\<open>type\<close>. Quantities and prices are exact decimals
  (the driver hands them to the program as strings, which it reads with
  \<^verbatim>\<open>parseFloat\<close>); they are modelled as rationals, and \<^verbatim>\<open>AVG\<close> as the exact quotient.
\<close>

record trade =
  trade_symbol :: string
  trade_quantity :: rat
  trade_price :: rat
  trade_type :: string

text \<open>A row of the query's result: \<^verbatim>\<open>symbol\<close>, \<^verbatim>\<open>net_qty\<close>, \<^verbatim>\<open>avg_price\<close>.\<close>

record agg_row =
  row_symbol :: string
  net_qty :: rat
  avg_price :: "rat option"

text \<open>\<^verbatim>\<open>CASE WHEN type='BUY' THEN quantity ELSE -quantity END\<close>\<close>

definition signed_quantity :: "trade \<Rightarrow> rat" where
  "signed_quantity t = (if trade_type t = ''BUY'' then trade_quantity t else - trade_quantity t)"

text \<open>
  \<^verbatim>\<open>GROUP BY symbol\<close>: one group for each symbol of the table, holding its rows. The
  query has no \<^verbatim>\<open>ORDER BY\<close>; the groups are listed here in the order of the last row
  of each symbol.
\<close>

definition group_by_symbol :: "trade list \<Rightarrow> (string \<times> trade list) list" where
  "group_by_symbol trades =
     map (\<lambda>s. (s, filter (\<lambda>t. trade_symbol t = s) trades)) (remdups (map trade_symbol trades))"

text \<open>The select list, computed on one group.\<close>

definition select_row :: "string \<times> trade list \<Rightarrow> agg_row" where
  "select_row g =
     \<lparr>row_symbol = fst g,
      net_qty = sum_list (map signed_quantity (snd g)),
      avg_price = Some (sum_list (map trade_price (snd g)) / of_nat (length (snd g)))\<rparr>"

text \<open>The whole query; \<^verbatim>\<open>HAVING\<close> keeps the groups whose sum is not zero.\<close>

definition aggregation_query :: "trade list \<Rightarrow> agg_row list" where
  "aggregation_query trades =
     map select_row
       (filter (\<lambda>g. sum_list (map signed_quantity (snd g)) \<noteq> 0) (group_by_symbol trades))"

section \<open>\<^verbatim>\<open>GET /api/portfolio\<close>\<close>

record position =
  symbol :: string
  netQty :: jsnum
  avgPrice :: "jsnum option"
  currentPrice :: "jsnum option"
  marketValue :: "jsnum option"

text \<open>
  Lines 116 to 128: the entry pushed for a row, given the price that was resolved. The
  driver hands \<^verbatim>\<open>net_qty\<close> and \<^verbatim>\<open>avg_price\<close> over as decimal texts, and
  \<^verbatim>\<open>parseFloat\<close> reads such a text as the binary64 number nearest to the decimal.
\<close>

definition make_position :: "agg_row \<Rightarrow> jsnum option \<Rightarrow> position" where
  "make_position r current =
     (let nq = to_binary64 (net_qty r) in
      \<lparr>symbol = row_symbol r,
       netQty = nq,
       avgPrice = (case avg_price r of None \<Rightarrow> None | Some a \<Rightarrow> Some (to_binary64 a)),
       currentPrice = current,
       marketValue =
         (case current of None \<Rightarrow> None | Some c \<Rightarrow> Some (Number_toFixed 4 (js_mul nq c)))\<rparr>)"

text \<open>
  The loop over the rows. The prices are fetched one after the other; the \<open>i\<close>-th
  lookup reads the clock and the network \<open>env i\<close>, and each lookup starts from the
  cache the one before left.
\<close>

fun portfolio_loop ::
  "string option \<Rightarrow> (nat \<Rightarrow> int \<times> network) \<Rightarrow> nat \<Rightarrow> agg_row list \<Rightarrow> price_cache
     \<Rightarrow> position list \<times> price_cache \<times> request list" where
  "portfolio_loop apiKey env i [] priceCache = ([], priceCache, [])"
| "portfolio_loop apiKey env i (r # rs) priceCache =
     (let out = fetchCurrentPrice apiKey (snd (env i)) (fst (env i)) priceCache (row_symbol r);
          (ps, pc, fs) = portfolio_loop apiKey env (Suc i) rs (cache_after out)
      in (make_position r (result out) # ps, pc, fetches out @ fs))"

text \<open>\<^verbatim>\<open>p.marketValue || 0\<close>\<close>

definition or_zero :: "jsnum option \<Rightarrow> jsnum" where
  "or_zero v = (case v of None \<Rightarrow> Num 0 | Some x \<Rightarrow> if num_truthy x then x else Num 0)"

text \<open>\<^verbatim>\<open>portfolio.reduce((acc, p) => acc + (p.marketValue || 0), 0)\<close>\<close>

definition totalValue :: "position list \<Rightarrow> jsnum" where
  "totalValue portfolio = foldl (\<lambda>acc p. js_add acc (or_zero (marketValue p))) (Num 0) portfolio"

text \<open>The body of the handler: the query, the loop, the total.\<close>

record portfolio_view =
  portfolio :: "position list"
  total :: jsnum

definition get_portfolio ::
  "string option \<Rightarrow> (nat \<Rightarrow> int \<times> network) \<Rightarrow> trade list \<Rightarrow> price_cache \<Rightarrow> portfolio_view" where
  "get_portfolio apiKey env trades priceCache =
     (let ps = fst (portfolio_loop apiKey env 0 (aggregation_query trades) priceCache)
      in \<lparr>portfolio = ps, total = totalValue ps\<rparr>)"

section \<open>Notions of the specification\<close>

text \<open>
  The cache holds an entry for the key whose age at time \<open>now\<close> is below the TTL.
\<close>

definition has_fresh_entry :: "price_cache \<Rightarrow> string \<Rightarrow> int \<Rightarrow> bool" where
  "has_fresh_entry priceCache key now =
     (case priceCache key of None \<Rightarrow> False | Some e \<Rightarrow> now - ts e < CACHE_TTL_MS)"

text \<open>
  The specification's trade record has a type that is \<open>BUY\<close> or \<open>SELL\<close>. The sums of
  the quantities bought and sold of a symbol, and the prices of all its records.
\<close>

definition buy_or_sell :: "trade list \<Rightarrow> bool" where
  "buy_or_sell trades = list_all (\<lambda>t. trade_type t = ''BUY'' \<or> trade_type t = ''SELL'') trades"

definition buy_total :: "trade list \<Rightarrow> string \<Rightarrow> rat" where
  "buy_total trades s =
     sum_list (map trade_quantity
       (filter (\<lambda>t. trade_symbol t = s \<and> trade_type t = ''BUY'') trades))"

definition sell_total :: "trade list \<Rightarrow> string \<Rightarrow> rat" where
  "sell_total trades s =
     sum_list (map trade_quantity
       (filter (\<lambda>t. trade_symbol t = s \<and> trade_type t = ''SELL'') trades))"

definition prices_of :: "trade list \<Rightarrow> string \<Rightarrow> rat list" where
  "prices_of trades s = map trade_price (filter (\<lambda>t. trade_symbol t = s) trades)"

definition mean :: "rat list \<Rightarrow> rat" where
  "mean xs = sum_list xs / of_nat (length xs)"

text \<open>
  Rounding a rational to \<open>f\<close> decimal places, half away from zero. Rounding a number
  to \<open>f\<close> decimal places: the exact value of the number is rounded half away from
  zero and the result is held as the nearest binary64 number; a number of magnitude
  \<open>10^21\<close> or more, \<open>NaN\<close> and the infinities are left as they are.
\<close>

definition round_half_away :: "nat \<Rightarrow> rat \<Rightarrow> rat" where
  "round_half_away f x = sgn x * of_int \<lfloor>\<bar>x\<bar> * 10 ^ f + 1 / 2\<rfloor> / 10 ^ f"

fun js_round :: "nat \<Rightarrow> jsnum \<Rightarrow> jsnum" where
  "js_round f (Num x) =
     (if 10 ^ 21 \<le> \<bar>x\<bar> then Num x else to_binary64 (round_half_away f x))"
| "js_round f NaN = NaN"
| "js_round f PosInf = PosInf"
| "js_round f NegInf = NegInf"






text \<open>
  The price field of a payload: the property \<^verbatim>\<open>05. price\<close> of the object under
  \<^verbatim>\<open>Global Quote\<close>, when the payload has both. The price a payload stands for: none
  when the field is missing or falsy (\<^verbatim>\<open>null\<close>, the empty string, \<open>0\<close>, \<^verbatim>\<open>false\<close>),
  and what \<^verbatim>\<open>parseFloat\<close> makes of the field otherwise.
\<close>

definition price_field :: "json \<Rightarrow> json option" where
  "price_field data =
     (case data of
        JObj ps \<Rightarrow>
          (case map_of ps ''Global Quote'' of
             Some (JObj qs) \<Rightarrow> map_of qs ''05. price''
           | _ \<Rightarrow> None)
      | _ \<Rightarrow> None)"

definition price_of_payload :: "json \<Rightarrow> jsnum option" where
  "price_of_payload data =
     (case price_field data of
        None \<Rightarrow> None
      | Some v \<Rightarrow> if truthy (Some v) then Some (parseFloat_json v) else None)"

text \<open>Two spellings that differ only in the case of their letters.\<close>

definition same_letter :: "char \<Rightarrow> char \<Rightarrow> bool" where
  "same_letter a b =
     (a = b \<or> (is_lower a \<and> b = upper_char a) \<or> (is_lower b \<and> a = upper_char b))"

definition differ_only_in_case :: "string \<Rightarrow> string \<Rightarrow> bool" where
  "differ_only_in_case s1 s2 = list_all2 same_letter s1 s2"

section \<open>Example inputs\<close>

text \<open>A payload whose price field is the given text, and three networks.\<close>

definition quote_payload :: "string \<Rightarrow> json" where
  "quote_payload t = JObj [(''Global Quote'', JObj [(''05. price'', JStr t)])]"

definition answering :: "json \<Rightarrow> network" where
  "answering data = (\<lambda>req. Resolves data)"

definition unreachable :: network where
  "unreachable = (\<lambda>req. Rejects)"

definition aapl_only :: "string \<Rightarrow> network" where
  "aapl_only t =
     (\<lambda>req. case req of GlobalQuote key k \<Rightarrow>
        if key = ''AAPL'' then Resolves (quote_payload t) else Rejects)"

text \<open>Every lookup of a request at time \<open>0\<close>, on one network.\<close>

definition at_time_0 :: "network \<Rightarrow> nat \<Rightarrow> int \<times> network" where
  "at_time_0 net = (\<lambda>i. (0, net))"

definition stale_cache :: price_cache where
  "stale_cache = [''AAPL'' \<mapsto> \<lparr>price = Some (Num 150), ts = 0\<rparr>]"

text \<open>
  Four ledgers: one in which AAPL stays open and MSFT is closed, one with two open
  positions, the specification's \<open>BUY 10 @ 5\<close>, \<open>SELL 10 @ 6\<close>, and one with a short
  position.
\<close>

definition ledger_1 :: "trade list" where
  "ledger_1 =
     [\<lparr>trade_symbol = ''AAPL'', trade_quantity = 5, trade_price = 10, trade_type = ''BUY''\<rparr>,
      \<lparr>trade_symbol = ''MSFT'', trade_quantity = 10, trade_price = 5, trade_type = ''BUY''\<rparr>,
      \<lparr>trade_symbol = ''AAPL'', trade_quantity = 2, trade_price = 12, trade_type = ''SELL''\<rparr>,
      \<lparr>trade_symbol = ''MSFT'', trade_quantity = 10, trade_price = 6, trade_type = ''SELL''\<rparr>]"

definition ledger_2 :: "trade list" where
  "ledger_2 =
     [\<lparr>trade_symbol = ''AAPL'', trade_quantity = 3, trade_price = 40, trade_type = ''BUY''\<rparr>,
      \<lparr>trade_symbol = ''MSFT'', trade_quantity = 10, trade_price = 5, trade_type = ''BUY''\<rparr>]"

definition ledger_short :: "trade list" where
  "ledger_short =
     [\<lparr>trade_symbol = ''TSLA'', trade_quantity = 3, trade_price = 7, trade_type = ''SELL''\<rparr>]"

definition ledger_3 :: "trade list" where
  "ledger_3 =
     [\<lparr>trade_symbol = ''XYZ'', trade_quantity = 10, trade_price = 5, trade_type = ''BUY''\<rparr>,
      \<lparr>trade_symbol = ''XYZ'', trade_quantity = 10, trade_price = 6, trade_type = ''SELL''\<rparr>]"

section \<open>Binary64 rounding\<close>

lemma pow2_pos: "0 < pow2 e"
  by (simp add: pow2_def)

lemma pow2_Suc: "pow2 (e + 1) = 2 * pow2 e"
proof (cases "0 \<le> e")
  case True
  then show ?thesis
    by (simp add: pow2_def nat_add_distrib)
next
  case False
  then have "nat (- e) = Suc (nat (- (e + 1)))"
    by simp
  with False show ?thesis
    by (simp add: pow2_def)
qed

lemma pow2_nat: "0 \<le> e \<Longrightarrow> pow2 e = 2 ^ nat e"
  by (simp add: pow2_def)

lemma pow2_neg: "0 \<le> e \<Longrightarrow> pow2 (- e) = 1 / 2 ^ nat e"
  by (cases "e = 0") (simp_all add: pow2_def)

text \<open>A positive integer \<open>n\<close> has \<open>k\<close> binary digits when \<open>2^(k-1) \<le> n < 2^k\<close>.\<close>

lemma bit_length_bounds:
  "0 < n \<Longrightarrow>
   0 < bit_length n \<and> 2 ^ nat (bit_length n - 1) \<le> n \<and> n < 2 ^ nat (bit_length n)"
proof (induction n rule: bit_length.induct)
  case (1 n)
  show ?case
  proof (cases "n = 1")
    case True
    then show ?thesis
      by (simp add: bit_length.simps [of 1] bit_length.simps [of 0])
  next
    case False
    with "1.prems" have m: "0 < n div 2"
      by simp
    let ?k = "bit_length (n div 2)"
    from "1.IH" "1.prems" m
    have k: "0 < ?k" and lo: "2 ^ nat (?k - 1) \<le> n div 2" and hi: "n div 2 < 2 ^ nat ?k"
      by simp_all
    have b: "bit_length n = ?k + 1"
      using "1.prems" by (subst bit_length.simps) simp
    have e: "nat ?k = Suc (nat (?k - 1))"
      using k by simp
    have "(2::int) ^ nat ?k \<le> n"
    proof -
      have "(2::int) ^ nat ?k = 2 * 2 ^ nat (?k - 1)"
        by (subst e) simp
      also have "\<dots> \<le> 2 * (n div 2)"
        using lo by simp
      also have "\<dots> \<le> n"
        by simp
      finally show ?thesis .
    qed
    moreover have "n < 2 ^ nat (?k + 1)"
    proof -
      have "n \<le> 2 * (n div 2) + 1"
        by presburger
      also have "\<dots> < 2 * 2 ^ nat ?k"
        using hi by simp
      also have "\<dots> = 2 ^ nat (?k + 1)"
        using k by (simp add: nat_add_distrib)
      finally show ?thesis .
    qed
    ultimately show ?thesis
      using k b by simp
  qed
qed

lemma ilog2_bounds:
  assumes "0 < a"
  shows "pow2 (ilog2 a) \<le> a" and "a < pow2 (ilog2 a + 1)"
proof -
  have "pow2 (ilog2 a) \<le> a \<and> a < pow2 (ilog2 a + 1)"
  proof (cases "1 \<le> a")
    case True
    then have n: "0 < \<lfloor>a\<rfloor>"
      by simp
    let ?k = "bit_length \<lfloor>a\<rfloor>"
    from bit_length_bounds [OF n]
    have k: "0 < ?k" and lo: "2 ^ nat (?k - 1) \<le> \<lfloor>a\<rfloor>" and hi: "\<lfloor>a\<rfloor> < 2 ^ nat ?k"
      by simp_all
    have "of_int (2 ^ nat (?k - 1) :: int) \<le> a"
      using lo le_floor_iff by blast
    then have 1: "2 ^ nat (?k - 1) \<le> a"
      by simp
    have "a < of_int (2 ^ nat ?k :: int)"
      using hi floor_less_iff by blast
    then have 2: "a < 2 ^ nat ?k"
      by simp
    from True k 1 2 show ?thesis
      by (simp add: ilog2_def pow2_def)
  next
    case False
    with assms have b: "1 < 1 / a"
      by simp
    let ?c = "\<lceil>1 / a\<rceil>"
    from b have c: "0 < ?c - 1"
      by (simp add: less_ceiling_iff)
    let ?m = "bit_length (?c - 1)"
    from bit_length_bounds [OF c]
    have m: "0 < ?m" and lo: "2 ^ nat (?m - 1) \<le> ?c - 1" and hi: "?c - 1 < 2 ^ nat ?m"
      by simp_all
    have "?c \<le> 2 ^ nat ?m"
      using hi by simp
    then have "1 / a \<le> of_int (2 ^ nat ?m :: int)"
      using ceiling_le_iff by blast
    then have "1 / a \<le> 2 ^ nat ?m"
      by simp
    then have 1: "1 / 2 ^ nat ?m \<le> a"
      using assms by (simp add: field_simps)
    have "?c - 1 < ?c"
      by simp
    then have "of_int (?c - 1) < 1 / a"
      using less_ceiling_iff by blast
    moreover have "of_int (2 ^ nat (?m - 1) :: int) \<le> (of_int (?c - 1) :: rat)"
      using lo by (simp only: of_int_le_iff)
    then have "(2::rat) ^ nat (?m - 1) \<le> of_int (?c - 1)"
      by simp
    ultimately have "2 ^ nat (?m - 1) < 1 / a"
      by simp
    then have 2: "a < 1 / 2 ^ nat (?m - 1)"
      using assms by (simp add: field_simps)
    have i: "ilog2 a = - ?m"
      using False by (simp add: ilog2_def)
    have "pow2 (- ?m) = 1 / 2 ^ nat ?m"
      using m by (simp add: pow2_neg)
    moreover have "pow2 (- ?m + 1) = 1 / 2 ^ nat (?m - 1)"
      using m pow2_neg [of "?m - 1"] by simp
    ultimately show ?thesis
      using 1 2 i by simp
  qed
  then show "pow2 (ilog2 a) \<le> a" and "a < pow2 (ilog2 a + 1)"
    by simp_all
qed

lemma round_half_even_near: "\<bar>of_int (round_half_even y) - y\<bar> \<le> 1 / 2"
proof -
  have "of_int \<lfloor>y\<rfloor> \<le> y" "y < of_int \<lfloor>y\<rfloor> + 1"
    using floor_correct [of y] by simp_all
  then show ?thesis
    by (auto simp: round_half_even_def Let_def)
qed

text \<open>
  The rounded value differs from the rational by at most half a unit of the last
  binary place.
\<close>

lemma to_binary64_near:
  assumes "to_binary64 x = Num r"
  shows "\<bar>r - x\<bar> \<le> pow2 (max (ilog2 \<bar>x\<bar>) (- 1022) - 52) / 2"
proof (cases "x = 0")
  case True
  with assms show ?thesis
    using pow2_pos [of "max (ilog2 \<bar>x\<bar>) (- 1022) - 52"] by (simp add: to_binary64_def)
next
  case False
  define q where "q = pow2 (max (ilog2 \<bar>x\<bar>) (- 1022) - 52)"
  define n where "n = round_half_even (\<bar>x\<bar> / q)"
  have q: "0 < q"
    by (simp add: q_def pow2_pos)
  from assms False have r: "r = (if x < 0 then - (of_int n * q) else of_int n * q)"
    by (simp add: to_binary64_def Let_def q_def n_def split: if_splits)
  have "\<bar>of_int n - \<bar>x\<bar> / q\<bar> \<le> 1 / 2"
    unfolding n_def by (rule round_half_even_near)
  then have "\<bar>of_int n - \<bar>x\<bar> / q\<bar> * q \<le> 1 / 2 * q"
    using q by (intro mult_right_mono) simp_all
  moreover have "\<bar>of_int n - \<bar>x\<bar> / q\<bar> * q = \<bar>of_int n * q - \<bar>x\<bar>\<bar>"
  proof -
    have "\<bar>of_int n - \<bar>x\<bar> / q\<bar> * q = \<bar>(of_int n - \<bar>x\<bar> / q) * q\<bar>"
      using q by (simp add: abs_mult)
    also have "(of_int n - \<bar>x\<bar> / q) * q = of_int n * q - \<bar>x\<bar>"
      using q by (simp add: field_simps)
    finally show ?thesis .
  qed
  ultimately have "\<bar>of_int n * q - \<bar>x\<bar>\<bar> \<le> q / 2"
    by simp
  moreover have "\<bar>r - x\<bar> = \<bar>of_int n * q - \<bar>x\<bar>\<bar>"
  proof (cases "x < 0")
    case True
    with r have "r - x = - (of_int n * q - \<bar>x\<bar>)"
      by simp
    then show ?thesis
      by (simp only: abs_minus_cancel)
  next
    case False
    with r show ?thesis
      by simp
  qed
  ultimately show ?thesis
    by (simp add: q_def)
qed

lemma to_binary64_not_NaN: "to_binary64 x \<noteq> NaN"
  by (simp add: to_binary64_def Let_def)

subsection \<open>Evaluation\<close>

lemma bit_length_numeral:
  "bit_length 0 = 0"
  "bit_length 1 = 1"
  "bit_length (numeral (Num.Bit0 k)) = bit_length (numeral k) + 1"
  "bit_length (numeral (Num.Bit1 k)) = bit_length (numeral k) + 1"
  "bit_length (- numeral k) = 0"
proof -
  show "bit_length 0 = 0"
    by (simp add: bit_length.simps)
  show "bit_length 1 = 1"
    by (simp add: bit_length.simps [of 1] bit_length.simps [of 0])
  show "bit_length (numeral (Num.Bit0 k)) = bit_length (numeral k) + 1"
    by (subst bit_length.simps) simp
  show "bit_length (numeral (Num.Bit1 k)) = bit_length (numeral k) + 1"
    by (subst bit_length.simps) simp
  show "bit_length (- numeral k) = 0"
    by (simp add: bit_length.simps)
qed

lemma floor_rat_numeral:
  "\<lfloor>(numeral a :: rat) / numeral b\<rfloor> = numeral a div numeral b"
  "\<lfloor>- (numeral a :: rat) / numeral b\<rfloor> = - numeral a div numeral b"
  "\<lfloor>- ((numeral a :: rat) / numeral b)\<rfloor> = - numeral a div numeral b"
  using floor_divide_of_int_eq [of "numeral a" "numeral b", where ?'a = rat]
        floor_divide_of_int_eq [of "- numeral a" "numeral b", where ?'a = rat]
  by simp_all

lemma ceiling_rat_numeral:
  "\<lceil>(numeral a :: rat) / numeral b\<rceil> = - (- numeral a div numeral b)"
  using floor_divide_of_int_eq [of "- numeral a" "numeral b", where ?'a = rat]
  by (simp add: ceiling_def)

lemmas binary64_eval =
  to_binary64_def ilog2_def pow2_def round_half_even_def Let_def bit_length_numeral
  floor_rat_numeral ceiling_rat_numeral

text \<open>Small integers are binary64 numbers; \<open>0.1\<close> and \<open>0.01\<close> are not.\<close>

lemma to_binary64_small:
  "to_binary64 3 = Num 3"
  "to_binary64 5 = Num 5"
  "to_binary64 10 = Num 10"
  "to_binary64 40 = Num 40"
  "to_binary64 50 = Num 50"
  "to_binary64 150 = Num 150"
  by (simp_all add: binary64_eval)

lemma to_binary64_tenth: "to_binary64 (1 / 10) = Num (3602879701896397 / 36028797018963968)"
  by (simp add: binary64_eval)

lemma to_binary64_hundredth:
  "to_binary64 (1 / 100) = Num (5764607523034235 / 576460752303423488)"
  by (simp add: binary64_eval)

lemma to_binary64_101:
  "to_binary64 (101 / 10000) = Num (5822253598264577 / 576460752303423488)"
  by (simp add: binary64_eval)

section \<open>The aggregation query: net quantity, dropped positions, average price\<close>

lemma query_row_net_qty:
  "r \<in> set (aggregation_query trades) \<Longrightarrow>
   net_qty r =
     sum_list (map signed_quantity (filter (\<lambda>t. trade_symbol t = row_symbol r) trades))"
  by (auto simp: aggregation_query_def group_by_symbol_def select_row_def)

lemma query_row_avg_price:
  "r \<in> set (aggregation_query trades) \<Longrightarrow>
   avg_price r =
     Some (sum_list (map trade_price (filter (\<lambda>t. trade_symbol t = row_symbol r) trades))
           / of_nat (length (filter (\<lambda>t. trade_symbol t = row_symbol r) trades)))"
  by (auto simp: aggregation_query_def group_by_symbol_def select_row_def)

lemma query_row_nonzero: "r \<in> set (aggregation_query trades) \<Longrightarrow> net_qty r \<noteq> 0"
  by (auto simp: aggregation_query_def group_by_symbol_def select_row_def)

lemma query_row_symbol:
  "r \<in> set (aggregation_query trades) \<Longrightarrow> row_symbol r \<in> trade_symbol ` set trades"
  by (auto simp: aggregation_query_def group_by_symbol_def select_row_def)

text \<open>Each symbol has at most one row, and a symbol with a non-zero sum has one.\<close>

lemma query_symbols_distinct: "distinct (map row_symbol (aggregation_query trades))"
proof -
  have "map row_symbol (aggregation_query trades) =
          map fst (filter (\<lambda>g. sum_list (map signed_quantity (snd g)) \<noteq> 0)
                     (group_by_symbol trades))"
    by (simp add: aggregation_query_def select_row_def comp_def)
  moreover have "distinct (map fst (group_by_symbol trades))"
    by (simp add: group_by_symbol_def comp_def)
  ultimately show ?thesis
    by (simp add: distinct_map_filter)
qed

lemma query_has_row:
  assumes "sum_list (map signed_quantity (filter (\<lambda>t. trade_symbol t = s) trades)) \<noteq> 0"
  shows "select_row (s, filter (\<lambda>t. trade_symbol t = s) trades) \<in> set (aggregation_query trades)"
proof -
  from assms have "filter (\<lambda>t. trade_symbol t = s) trades \<noteq> []"
    by auto
  then have "s \<in> set (remdups (map trade_symbol trades))"
    by (auto simp: filter_empty_conv)
  then have "(s, filter (\<lambda>t. trade_symbol t = s) trades) \<in> set (group_by_symbol trades)"
    unfolding group_by_symbol_def by (simp add: image_iff)
  with assms show ?thesis
    unfolding aggregation_query_def by (simp add: image_iff) force
qed

text \<open>On records that are all \<open>BUY\<close> or \<open>SELL\<close>, the signed sum is buys minus sells.\<close>

lemma signed_sum:
  "\<forall>t\<in>set xs. trade_type t = ''BUY'' \<or> trade_type t = ''SELL'' \<Longrightarrow>
   sum_list (map signed_quantity (filter (\<lambda>t. trade_symbol t = s) xs)) =
     buy_total xs s - sell_total xs s"
  by (induction xs) (auto simp: buy_total_def sell_total_def signed_quantity_def)

text \<open>The two totals do not depend on the order of the records.\<close>

lemma buy_total_mset:
  assumes "mset xs = mset ys"
  shows "buy_total xs s = buy_total ys s"
proof -
  have "\<And>zs. buy_total zs s =
          sum_mset (image_mset trade_quantity
            (filter_mset (\<lambda>t. trade_symbol t = s \<and> trade_type t = ''BUY'') (mset zs)))"
    by (simp add: buy_total_def flip: sum_mset_sum_list)
  with assms show ?thesis by simp
qed

lemma sell_total_mset:
  assumes "mset xs = mset ys"
  shows "sell_total xs s = sell_total ys s"
proof -
  have "\<And>zs. sell_total zs s =
          sum_mset (image_mset trade_quantity
            (filter_mset (\<lambda>t. trade_symbol t = s \<and> trade_type t = ''SELL'') (mset zs)))"
    by (simp add: sell_total_def flip: sum_mset_sum_list)
  with assms show ?thesis by simp
qed

lemma query_ledger_1:
  "aggregation_query ledger_1 = [\<lparr>row_symbol = ''AAPL'', net_qty = 3, avg_price = Some 11\<rparr>]"
  by (simp add: aggregation_query_def group_by_symbol_def select_row_def ledger_1_def
        signed_quantity_def)

lemma query_rev_ledger_1:
  "aggregation_query (rev ledger_1) =
     [\<lparr>row_symbol = ''AAPL'', net_qty = 3, avg_price = Some 11\<rparr>]"
  by (simp add: aggregation_query_def group_by_symbol_def select_row_def ledger_1_def
        signed_quantity_def)

lemma query_ledger_2:
  "aggregation_query ledger_2 =
     [\<lparr>row_symbol = ''AAPL'', net_qty = 3, avg_price = Some 40\<rparr>,
      \<lparr>row_symbol = ''MSFT'', net_qty = 10, avg_price = Some 5\<rparr>]"
  by (simp add: aggregation_query_def group_by_symbol_def select_row_def ledger_2_def
        signed_quantity_def)

lemma query_ledger_short:
  "aggregation_query ledger_short =
     [\<lparr>row_symbol = ''TSLA'', net_qty = - 3, avg_price = Some 7\<rparr>]"
  by (simp add: aggregation_query_def group_by_symbol_def select_row_def ledger_short_def
        signed_quantity_def)

lemma query_ledger_3: "aggregation_query ledger_3 = []"
  by (simp add: aggregation_query_def group_by_symbol_def select_row_def ledger_3_def
        signed_quantity_def)

text \<open>
  C2. For a ledger whose records are all \<open>BUY\<close> or \<open>SELL\<close>, and the query run on the
  ledger in any order of its records: the net quantity of every row of the result is
  the sum of the quantities of the BUY records of the row's symbol minus the sum of
  the quantities of its SELL records; every symbol for which that difference is not
  zero, positive or negative, has a row in the result, which reports the difference;
  and no symbol has two rows.
\<close>

theorem net_quantity_is_buys_minus_sells:
  assumes "buy_or_sell trades"
    and "mset reordered = mset trades"
  shows "(\<forall>r\<in>set (aggregation_query reordered).
            net_qty r = buy_total trades (row_symbol r) - sell_total trades (row_symbol r))
       \<and> (buy_total trades s - sell_total trades s \<noteq> 0 \<longrightarrow>
            (\<exists>r\<in>set (aggregation_query reordered).
               row_symbol r = s \<and> net_qty r = buy_total trades s - sell_total trades s))
       \<and> distinct (map row_symbol (aggregation_query reordered))"
proof (intro conjI ballI impI)
  from assms(2) have "set reordered = set trades"
    by (rule mset_eq_setD)
  with assms(1) have ty: "\<forall>t\<in>set reordered. trade_type t = ''BUY'' \<or> trade_type t = ''SELL''"
    by (simp add: buy_or_sell_def list_all_iff)
  have net: "sum_list (map signed_quantity (filter (\<lambda>t. trade_symbol t = x) reordered)) =
               buy_total trades x - sell_total trades x" for x
    using signed_sum [OF ty, of x] assms(2)
    by (simp add: buy_total_mset [of reordered trades] sell_total_mset [of reordered trades])
  {
    fix r
    assume "r \<in> set (aggregation_query reordered)"
    then have "net_qty r =
        sum_list (map signed_quantity (filter (\<lambda>t. trade_symbol t = row_symbol r) reordered))"
      by (rule query_row_net_qty)
    then show "net_qty r = buy_total trades (row_symbol r) - sell_total trades (row_symbol r)"
      by (simp add: net)
  next
    let ?r = "select_row (s, filter (\<lambda>t. trade_symbol t = s) reordered)"
    assume "buy_total trades s - sell_total trades s \<noteq> 0"
    then have "sum_list (map signed_quantity (filter (\<lambda>t. trade_symbol t = s) reordered)) \<noteq> 0"
      by (simp add: net)
    then have "?r \<in> set (aggregation_query reordered)"
      by (rule query_has_row)
    moreover have "row_symbol ?r = s"
      and "net_qty ?r = buy_total trades s - sell_total trades s"
      by (simp_all add: select_row_def net)
    ultimately show "\<exists>r\<in>set (aggregation_query reordered).
        row_symbol r = s \<and> net_qty r = buy_total trades s - sell_total trades s"
      by blast
  next
    show "distinct (map row_symbol (aggregation_query reordered))"
      by (rule query_symbols_distinct)
  }
qed

theorem net_quantity_is_buys_minus_sells_witness:
  "buy_or_sell ledger_1 \<and> mset (rev ledger_1) = mset ledger_1 \<and>
   aggregation_query (rev ledger_1) =
     [\<lparr>row_symbol = ''AAPL'', net_qty = 3, avg_price = Some 11\<rparr>] \<and>
   buy_total ledger_1 ''AAPL'' - sell_total ledger_1 ''AAPL'' = 3 \<and>
   buy_or_sell ledger_short \<and>
   buy_total ledger_short ''TSLA'' - sell_total ledger_short ''TSLA'' = - 3 \<and>
   aggregation_query ledger_short =
     [\<lparr>row_symbol = ''TSLA'', net_qty = - 3, avg_price = Some 7\<rparr>]"
proof -
  have a: "buy_or_sell ledger_1"
    by (simp add: buy_or_sell_def ledger_1_def)
  have b: "mset (rev ledger_1) = mset ledger_1"
    by simp
  have c: "\<lparr>row_symbol = ''AAPL'', net_qty = 3, avg_price = Some 11\<rparr>
             \<in> set (aggregation_query (rev ledger_1))"
    by (simp add: query_rev_ledger_1)
  from net_quantity_is_buys_minus_sells [OF a b] c
  have d: "buy_total ledger_1 ''AAPL'' - sell_total ledger_1 ''AAPL'' = 3"
    by force
  have e: "buy_or_sell ledger_short"
    by (simp add: buy_or_sell_def ledger_short_def)
  have f: "buy_total ledger_short ''TSLA'' - sell_total ledger_short ''TSLA'' = - 3"
    by (simp add: buy_total_def sell_total_def ledger_short_def)
  from f have nz: "buy_total ledger_short ''TSLA'' - sell_total ledger_short ''TSLA'' \<noteq> 0"
    by simp
  note reported =
    net_quantity_is_buys_minus_sells
      [OF e refl, of "''TSLA''", THEN conjunct2, THEN conjunct1, rule_format, OF nz]
  with f
  have "\<exists>r\<in>set (aggregation_query ledger_short). row_symbol r = ''TSLA'' \<and> net_qty r = - 3"
    by simp
  with a b d e f query_rev_ledger_1 query_ledger_short show ?thesis
    by blast
qed

text \<open>
  C3. For a ledger whose records are all \<open>BUY\<close> or \<open>SELL\<close>: a symbol whose BUY
  quantities minus SELL quantities are exactly zero has no row in the result of the
  query, and every row of the result has a net quantity other than zero.
\<close>

theorem zero_net_positions_dropped:
  assumes "buy_or_sell trades"
  shows "(buy_total trades s - sell_total trades s = 0 \<longrightarrow>
            s \<notin> row_symbol ` set (aggregation_query trades))
       \<and> (\<forall>r\<in>set (aggregation_query trades). net_qty r \<noteq> 0)"
proof (intro conjI impI ballI)
  from assms have ty: "\<forall>t\<in>set trades. trade_type t = ''BUY'' \<or> trade_type t = ''SELL''"
    by (simp add: buy_or_sell_def list_all_iff)
  assume z: "buy_total trades s - sell_total trades s = 0"
  show "s \<notin> row_symbol ` set (aggregation_query trades)"
  proof
    assume "s \<in> row_symbol ` set (aggregation_query trades)"
    then obtain r where r: "r \<in> set (aggregation_query trades)" "row_symbol r = s"
      by auto
    have "net_qty r = sum_list (map signed_quantity (filter (\<lambda>t. trade_symbol t = s) trades))"
      using query_row_net_qty [OF r(1)] r(2) by simp
    with signed_sum [OF ty, of s] z query_row_nonzero [OF r(1)] show False
      by simp
  qed
next
  fix r
  assume "r \<in> set (aggregation_query trades)"
  then show "net_qty r \<noteq> 0"
    by (rule query_row_nonzero)
qed

theorem zero_net_positions_dropped_witness:
  "buy_or_sell ledger_3 \<and> buy_total ledger_3 ''XYZ'' - sell_total ledger_3 ''XYZ'' = 0 \<and>
   ''XYZ'' \<notin> row_symbol ` set (aggregation_query ledger_3) \<and>
   buy_or_sell ledger_1 \<and>
   \<lparr>row_symbol = ''AAPL'', net_qty = 3, avg_price = Some 11\<rparr> \<in> set (aggregation_query ledger_1) \<and>
   net_qty \<lparr>row_symbol = ''AAPL'', net_qty = 3, avg_price = Some 11\<rparr> \<noteq> 0"
proof -
  have a: "buy_or_sell ledger_3"
    by (simp add: buy_or_sell_def ledger_3_def)
  have z: "buy_total ledger_3 ''XYZ'' - sell_total ledger_3 ''XYZ'' = 0"
    by (simp add: buy_total_def sell_total_def ledger_3_def)
  have b: "buy_or_sell ledger_1"
    by (simp add: buy_or_sell_def ledger_1_def)
  have r: "\<lparr>row_symbol = ''AAPL'', net_qty = 3, avg_price = Some 11\<rparr>
             \<in> set (aggregation_query ledger_1)"
    by (simp add: query_ledger_1)
  from zero_net_positions_dropped [OF a, of "''XYZ''"] z
  have "''XYZ'' \<notin> row_symbol ` set (aggregation_query ledger_3)"
    by blast
  moreover from zero_net_positions_dropped [OF b] r
  have "net_qty \<lparr>row_symbol = ''AAPL'', net_qty = 3, avg_price = Some 11\<rparr> \<noteq> 0"
    by blast
  ultimately show ?thesis
    using a z b r by blast
qed

text \<open>
  C4. The average price of every row of the result is the arithmetic mean of the
  prices of all the records of the row's symbol, BUY and SELL alike; there is at
  least one such record.
\<close>

theorem average_price_is_mean_of_all_trades:
  assumes "r \<in> set (aggregation_query trades)"
  shows "avg_price r = Some (mean (prices_of trades (row_symbol r)))
       \<and> prices_of trades (row_symbol r) \<noteq> []"
proof -
  have "avg_price r = Some (mean (prices_of trades (row_symbol r)))"
    using query_row_avg_price [OF assms] by (simp add: mean_def prices_of_def)
  moreover have "prices_of trades (row_symbol r) \<noteq> []"
    using query_row_symbol [OF assms] by (auto simp: prices_of_def filter_empty_conv)
  ultimately show ?thesis
    by simp
qed

theorem average_price_is_mean_of_all_trades_witness:
  "\<lparr>row_symbol = ''AAPL'', net_qty = 3, avg_price = Some 11\<rparr> \<in> set (aggregation_query ledger_1) \<and>
   prices_of ledger_1 ''AAPL'' = [10, 12] \<and> mean [10, 12] = 11"
proof -
  have a: "\<lparr>row_symbol = ''AAPL'', net_qty = 3, avg_price = Some 11\<rparr>
             \<in> set (aggregation_query ledger_1)"
    by (simp add: query_ledger_1)
  have b: "prices_of ledger_1 ''AAPL'' = [10, 12]"
    by (simp add: prices_of_def ledger_1_def)
  from average_price_is_mean_of_all_trades [OF a] a b show ?thesis
    by simp
qed

section \<open>The price resolver\<close>

subsection \<open>The paths of \<^verbatim>\<open>fetchCurrentPrice\<close>\<close>

lemma fetch_fresh:
  "priceCache (toUpperCase s) = Some e \<Longrightarrow> now - ts e < CACHE_TTL_MS \<Longrightarrow>
   fetchCurrentPrice apiKey net now priceCache s =
     \<lparr>result = price e, cache_after = priceCache, fetches = []\<rparr>"
  by (simp add: fetchCurrentPrice_def)

lemma fetch_not_fresh:
  "\<not> has_fresh_entry priceCache (toUpperCase s) now \<Longrightarrow>
   fetchCurrentPrice apiKey net now priceCache s =
     refresh apiKey net now priceCache (toUpperCase s)"
  by (simp add: fetchCurrentPrice_def has_fresh_entry_def split: option.splits)

lemma refresh_entry:
  "cache_after (refresh apiKey net now priceCache key) key =
     Some \<lparr>price = result (refresh apiKey net now priceCache key), ts = now\<rparr>"
  by (simp add: refresh_def split: option.splits sum.splits)

lemma refresh_fetches_le: "length (fetches (refresh apiKey net now priceCache key)) \<le> 1"
  by (simp add: refresh_def split: option.splits sum.splits)

lemma fetch_fetches_le: "length (fetches (fetchCurrentPrice apiKey net now priceCache s)) \<le> 1"
  by (auto simp: fetchCurrentPrice_def Let_def refresh_def split: option.splits sum.splits)

text \<open>After a call the cache has an entry under the key, holding what the call returned.\<close>

lemma fetch_leaves_entry:
  "map_option price
     (cache_after (fetchCurrentPrice apiKey net now priceCache s) (toUpperCase s)) =
   Some (result (fetchCurrentPrice apiKey net now priceCache s))"
proof (cases "has_fresh_entry priceCache (toUpperCase s) now")
  case True
  then obtain e where "priceCache (toUpperCase s) = Some e" "now - ts e < CACHE_TTL_MS"
    by (auto simp: has_fresh_entry_def split: option.splits)
  then show ?thesis
    by (simp add: fetch_fresh)
next
  case False
  then show ?thesis
    by (simp add: fetch_not_fresh refresh_entry)
qed

text \<open>
  Two calls for one symbol, the second less than a TTL after the first: if the first
  one fetched, the entry it wrote is still fresh for the second.
\<close>

lemma two_calls:
  assumes "now2 - now1 < CACHE_TTL_MS" and "toUpperCase s2 = toUpperCase s1"
  shows "length (fetches (fetchCurrentPrice k1 net1 now1 pc s1)) +
         length (fetches (fetchCurrentPrice k2 net2 now2
                   (cache_after (fetchCurrentPrice k1 net1 now1 pc s1)) s2)) \<le> 1"
proof (cases "has_fresh_entry pc (toUpperCase s1) now1")
  case True
  then obtain e where e: "pc (toUpperCase s1) = Some e" "now1 - ts e < CACHE_TTL_MS"
    by (auto simp: has_fresh_entry_def split: option.splits)
  have "length (fetches (fetchCurrentPrice k2 net2 now2 pc s2)) \<le> 1"
    by (rule fetch_fetches_le)
  with e show ?thesis
    by (simp add: fetch_fresh)
next
  case False
  let ?o1 = "refresh k1 net1 now1 pc (toUpperCase s1)"
  have "fetchCurrentPrice k2 net2 now2 (cache_after ?o1) s2 =
          \<lparr>result = result ?o1, cache_after = cache_after ?o1, fetches = []\<rparr>"
    using assms
      fetch_fresh [of "cache_after ?o1" s2 "\<lparr>price = result ?o1, ts = now1\<rparr>" now2 k2 net2]
    by (simp add: refresh_entry)
  with False refresh_fetches_le [of k1 net1 now1 pc "toUpperCase s1"] show ?thesis
    by (simp add: fetch_not_fresh)
qed

subsection \<open>The payload\<close>

text \<open>
  The two property reads with their defaults (\<^verbatim>\<open>|| {}\<close>, \<^verbatim>\<open>?? null\<close>) find the price
  field of the payload; only a \<^verbatim>\<open>null\<close> payload raises.
\<close>

lemma extract_price_field:
  "data \<noteq> JNull \<Longrightarrow> extract_price data = Inr (price_of_payload data)"
  by (cases data)
     (auto simp: extract_price_def price_field_def price_of_payload_def Let_def
        split: option.splits json.splits)

lemma try_fetch_resolves:
  "net req = Resolves data \<Longrightarrow>
   try_fetch net req = (if data = JNull then Inl TypeError else Inr (price_of_payload data))"
  by (simp add: try_fetch_def extract_price_field) (simp add: extract_price_def)

lemma extract_quote_payload:
  "extract_price (quote_payload t) = Inr (if t = [] then None else Some (parseFloat t))"
  by (simp add: extract_price_def quote_payload_def)

lemma price_of_quote_payload:
  "price_of_payload (quote_payload t) = (if t = [] then None else Some (parseFloat t))"
  by (simp add: price_of_payload_def price_field_def quote_payload_def)

subsection \<open>Letter case\<close>

lemma upper_char_idem: "upper_char (upper_char c) = upper_char c"
proof (cases "is_lower c")
  case True
  then have "(of_char c - 32 :: nat) < 256"
    unfolding is_lower_def by linarith
  then have "of_char (char_of (of_char c - 32 :: nat)) = (of_char c - 32 :: nat)"
    by simp
  moreover have "(of_char c - 32 :: nat) < 97"
    using True unfolding is_lower_def by linarith
  ultimately have "\<not> is_lower (upper_char c)"
    using True by (simp add: upper_char_def is_lower_def)
  then show ?thesis
    by (simp add: upper_char_def)
next
  case False
  then show ?thesis
    by (simp add: upper_char_def)
qed

lemma same_letter_upper: "same_letter a b \<Longrightarrow> upper_char a = upper_char b"
  by (auto simp: same_letter_def upper_char_idem)

lemma differ_only_in_case_upper:
  "differ_only_in_case s1 s2 \<Longrightarrow> toUpperCase s1 = toUpperCase s2"
  unfolding differ_only_in_case_def toUpperCase_def
  by (induction rule: list_all2_induct) (simp_all add: same_letter_upper)

subsection \<open>Evaluation on the example inputs\<close>

lemma upper_AAPL: "toUpperCase ''AAPL'' = ''AAPL''"
  by (simp add: toUpperCase_def upper_char_def is_lower_def)

lemma upper_aapl: "toUpperCase ''aapl'' = ''AAPL''"
  by (simp add: toUpperCase_def upper_char_def is_lower_def char_of_def bit_0)

lemma upper_MSFT: "toUpperCase ''MSFT'' = ''MSFT''"
  by (simp add: toUpperCase_def upper_char_def is_lower_def)

lemma aapl_differs_in_case: "differ_only_in_case ''aapl'' ''AAPL''"
  by (simp add: differ_only_in_case_def same_letter_def upper_char_def is_lower_def
        char_of_def bit_0)

lemma parse_150: "parseFloat ''150.00'' = Num 150"
  unfolding parseFloat_def
  by (simp add: is_ws_def is_digit_def digits_value_def pow10_def binary64_eval)


lemma parse_50_12346: "parseFloat ''50.12346'' = Num (7054249868078749 / 140737488355328)"
  unfolding parseFloat_def
  by (simp add: is_ws_def is_digit_def digits_value_def pow10_def binary64_eval)

lemma parse_0_00335: "parseFloat ''0.00335'' = Num (7724574080865875 / 2305843009213693952)"
  unfolding parseFloat_def
  by (simp add: is_ws_def is_digit_def digits_value_def pow10_def binary64_eval)

lemma parse_NA: "parseFloat ''N/A'' = NaN"
  unfolding parseFloat_def
  by (simp add: is_ws_def is_digit_def)

lemma parse_Infinity: "parseFloat ''Infinity'' = PosInf"
  unfolding parseFloat_def
  by (simp add: is_ws_def is_digit_def)

lemma stale_cache_stale: "\<not> has_fresh_entry stale_cache (toUpperCase ''AAPL'') 60000"
  by (simp add: has_fresh_entry_def stale_cache_def upper_AAPL CACHE_TTL_MS_def)

lemma stale_cache_fresh: "has_fresh_entry stale_cache (toUpperCase ''AAPL'') 59999"
  by (simp add: has_fresh_entry_def stale_cache_def upper_AAPL CACHE_TTL_MS_def)

text \<open>
  C10. After a call of \<^verbatim>\<open>fetchCurrentPrice\<close> the cache holds an entry under the upper-case
  symbol, and the value returned is the price stored in that entry. This covers every
  path: a fresh entry, a missing API key, a fetch that succeeded, a payload without a
  usable price, and a fetch that raised.
\<close>

theorem returned_price_is_cached_price:
  "\<exists>e. cache_after (fetchCurrentPrice apiKey net now priceCache s) (toUpperCase s) = Some e \<and>
       price e = result (fetchCurrentPrice apiKey net now priceCache s)"
  using fetch_leaves_entry [of apiKey net now priceCache s] by auto

theorem returned_price_is_cached_price_witness:
  "cache_after (fetchCurrentPrice (Some ''demo'') unreachable 60000 stale_cache ''aapl'') ''AAPL''
     = Some \<lparr>price = None, ts = 60000\<rparr> \<and>
   result (fetchCurrentPrice (Some ''demo'') unreachable 60000 stale_cache ''aapl'') = None"
proof -
  have "fetchCurrentPrice (Some ''demo'') unreachable 60000 stale_cache ''aapl'' =
          \<lparr>result = None,
           cache_after = stale_cache(''AAPL'' \<mapsto> \<lparr>price = None, ts = 60000\<rparr>),
           fetches = [GlobalQuote ''AAPL'' ''demo'']\<rparr>"
    by (simp add: fetchCurrentPrice_def Let_def upper_aapl stale_cache_def CACHE_TTL_MS_def
          refresh_def try_fetch_def unreachable_def)
  with returned_price_is_cached_price
         [of "Some ''demo''" unreachable 60000 stale_cache "''aapl''"]
  show ?thesis
    by (simp add: upper_aapl)
qed

text \<open>
  C5. Without a fresh entry: when no API key is configured (the variable is unset or
  empty), the call sends nothing, stores an absent price with the current time under
  the upper-case symbol, and returns absent; when the key is configured and the
  \<^verbatim>\<open>try\<close> block raises, the call has sent its one request, stores an absent price with
  the current time, and returns absent. In both cases the call returns normally.
\<close>

theorem missing_key_or_fetch_error_stores_absent:
  assumes "\<not> has_fresh_entry priceCache (toUpperCase s) now"
  shows "(apiKey = None \<or> apiKey = Some [] \<longrightarrow>
            fetchCurrentPrice apiKey net now priceCache s =
              \<lparr>result = None,
               cache_after = priceCache(toUpperCase s \<mapsto> \<lparr>price = None, ts = now\<rparr>),
               fetches = []\<rparr>)
       \<and> (\<forall>k e. apiKey = Some k \<and> k \<noteq> [] \<and>
               try_fetch net (GlobalQuote (toUpperCase s) k) = Inl e \<longrightarrow>
            fetchCurrentPrice apiKey net now priceCache s =
              \<lparr>result = None,
               cache_after = priceCache(toUpperCase s \<mapsto> \<lparr>price = None, ts = now\<rparr>),
               fetches = [GlobalQuote (toUpperCase s) k]\<rparr>)"
  using assms by (auto simp: fetch_not_fresh refresh_def)

theorem missing_key_or_fetch_error_stores_absent_witness:
  "\<not> has_fresh_entry stale_cache (toUpperCase ''AAPL'') 60000 \<and>
   fetchCurrentPrice None (answering (quote_payload ''150.00'')) 60000 stale_cache ''AAPL'' =
     \<lparr>result = None,
      cache_after = stale_cache(''AAPL'' \<mapsto> \<lparr>price = None, ts = 60000\<rparr>),
      fetches = []\<rparr> \<and>
   try_fetch unreachable (GlobalQuote ''AAPL'' ''demo'') = Inl FetchError \<and>
   fetchCurrentPrice (Some ''demo'') unreachable 60000 stale_cache ''AAPL'' =
     \<lparr>result = None,
      cache_after = stale_cache(''AAPL'' \<mapsto> \<lparr>price = None, ts = 60000\<rparr>),
      fetches = [GlobalQuote ''AAPL'' ''demo'']\<rparr>"
proof -
  have e: "try_fetch unreachable (GlobalQuote ''AAPL'' ''demo'') = Inl FetchError"
    by (simp add: try_fetch_def unreachable_def)
  from missing_key_or_fetch_error_stores_absent
         [OF stale_cache_stale, of None "answering (quote_payload ''150.00'')"]
  have a: "fetchCurrentPrice None (answering (quote_payload ''150.00'')) 60000 stale_cache ''AAPL'' =
     \<lparr>result = None,
      cache_after = stale_cache(''AAPL'' \<mapsto> \<lparr>price = None, ts = 60000\<rparr>),
      fetches = []\<rparr>"
    by (simp add: upper_AAPL)
  from missing_key_or_fetch_error_stores_absent
         [OF stale_cache_stale, of "Some ''demo''" unreachable] e
  have b: "fetchCurrentPrice (Some ''demo'') unreachable 60000 stale_cache ''AAPL'' =
     \<lparr>result = None,
      cache_after = stale_cache(''AAPL'' \<mapsto> \<lparr>price = None, ts = 60000\<rparr>),
      fetches = [GlobalQuote ''AAPL'' ''demo'']\<rparr>"
    by (simp add: upper_AAPL)
  from a b e stale_cache_stale show ?thesis
    by simp
qed

text \<open>
  C1, as the claim states its last part: a call after the TTL has expired issues
  exactly one new fetch. With no API key configured the call issues none: the entry
  below is 60000 ms old, the provider would answer, and no request is sent.
\<close>

theorem stale_entry_without_key_issues_no_fetch:
  "\<not> has_fresh_entry stale_cache (toUpperCase ''AAPL'') 60000 \<and>
   length (fetches (fetchCurrentPrice None (answering (quote_payload ''150.00'')) 60000
                      stale_cache ''AAPL'')) \<noteq> 1"
  by (simp add: stale_cache_stale fetch_not_fresh refresh_def)

text \<open>
  C1, amended. A call that finds an entry under the upper-case symbol whose age is
  below the TTL returns the stored price, sends nothing and leaves the cache as it is.
  Two calls for one symbol, the second less than a TTL after the first, send at most
  one request between them. A call that finds no fresh entry sends exactly one
  request when an API key is configured, and none when it is not.
\<close>

theorem fresh_entry_served_without_fetch:
  "(\<forall>e. priceCache (toUpperCase s) = Some e \<and> now - ts e < CACHE_TTL_MS \<longrightarrow>
        fetchCurrentPrice apiKey net now priceCache s =
          \<lparr>result = price e, cache_after = priceCache, fetches = []\<rparr>)
   \<and> (now2 - now < CACHE_TTL_MS \<longrightarrow>
        length (fetches (fetchCurrentPrice apiKey net now priceCache s)) +
        length (fetches (fetchCurrentPrice apiKey2 net2 now2
                  (cache_after (fetchCurrentPrice apiKey net now priceCache s)) s)) \<le> 1)
   \<and> (\<not> has_fresh_entry priceCache (toUpperCase s) now \<longrightarrow>
        fetches (fetchCurrentPrice apiKey net now priceCache s) =
          (case apiKey of
             None \<Rightarrow> []
           | Some k \<Rightarrow> if k = [] then [] else [GlobalQuote (toUpperCase s) k]))"
proof (intro conjI allI impI)
  fix e
  assume "priceCache (toUpperCase s) = Some e \<and> now - ts e < CACHE_TTL_MS"
  then show "fetchCurrentPrice apiKey net now priceCache s =
               \<lparr>result = price e, cache_after = priceCache, fetches = []\<rparr>"
    by (simp add: fetch_fresh)
next
  assume "now2 - now < CACHE_TTL_MS"
  then show "length (fetches (fetchCurrentPrice apiKey net now priceCache s)) +
             length (fetches (fetchCurrentPrice apiKey2 net2 now2
                       (cache_after (fetchCurrentPrice apiKey net now priceCache s)) s)) \<le> 1"
    by (rule two_calls) simp
next
  assume "\<not> has_fresh_entry priceCache (toUpperCase s) now"
  then show "fetches (fetchCurrentPrice apiKey net now priceCache s) =
               (case apiKey of
                  None \<Rightarrow> []
                | Some k \<Rightarrow> if k = [] then [] else [GlobalQuote (toUpperCase s) k])"
    by (simp add: fetch_not_fresh refresh_def split: option.splits sum.splits)
qed

theorem fresh_entry_served_without_fetch_witness:
  "fetchCurrentPrice (Some ''demo'') unreachable 59999 stale_cache ''AAPL'' =
     \<lparr>result = Some (Num 150), cache_after = stale_cache, fetches = []\<rparr> \<and>
   fetches (fetchCurrentPrice (Some ''demo'') unreachable 60000 stale_cache ''AAPL'') =
     [GlobalQuote ''AAPL'' ''demo''] \<and>
   length (fetches (fetchCurrentPrice (Some ''demo'') unreachable 60000 stale_cache ''AAPL'')) +
   length (fetches (fetchCurrentPrice (Some ''demo'') unreachable 119999
             (cache_after (fetchCurrentPrice (Some ''demo'') unreachable 60000 stale_cache ''AAPL''))
             ''AAPL'')) \<le> 1"
proof -
  have e: "stale_cache (toUpperCase ''AAPL'') = Some \<lparr>price = Some (Num 150), ts = 0\<rparr>"
    by (simp add: stale_cache_def upper_AAPL)
  have t: "(59999::int) - ts \<lparr>price = Some (Num 150), ts = 0\<rparr> < CACHE_TTL_MS"
          "(119999::int) - 60000 < CACHE_TTL_MS"
    by (simp_all add: CACHE_TTL_MS_def)
  note fresh =
    fresh_entry_served_without_fetch
      [of stale_cache "''AAPL''" 59999 "Some ''demo''" unreachable,
       THEN conjunct1, rule_format, OF conjI [OF e t(1)]]
  note within =
    fresh_entry_served_without_fetch
      [of stale_cache "''AAPL''" 60000 "Some ''demo''" unreachable 119999
          "Some ''demo''" unreachable,
       THEN conjunct2, THEN conjunct1, rule_format, OF t(2)]
  note expired =
    fresh_entry_served_without_fetch
      [of stale_cache "''AAPL''" 60000 "Some ''demo''" unreachable,
       THEN conjunct2, THEN conjunct2, rule_format, OF stale_cache_stale]
  from fresh
  have a: "fetchCurrentPrice (Some ''demo'') unreachable 59999 stale_cache ''AAPL'' =
             \<lparr>result = Some (Num 150), cache_after = stale_cache, fetches = []\<rparr>"
    by simp
  from expired
  have b: "fetches (fetchCurrentPrice (Some ''demo'') unreachable 60000 stale_cache ''AAPL'') =
             [GlobalQuote ''AAPL'' ''demo'']"
    by (simp add: upper_AAPL)
  note c = within
  from a b c show ?thesis
    by blast
qed

text \<open>
  C6, as the claim states it: a price text that cannot be converted to a finite number
  is stored and returned as absent. The text \<^verbatim>\<open>N/A\<close> parses to \<open>NaN\<close>, and the call
  stores and returns \<open>NaN\<close>, which is a number and not \<^verbatim>\<open>null\<close>.
\<close>

theorem unparseable_price_is_stored_as_NaN:
  "parseFloat ''N/A'' = NaN \<and>
   fetchCurrentPrice (Some ''demo'') (answering (quote_payload ''N/A'')) 0 Map.empty ''AAPL'' =
     \<lparr>result = Some NaN,
      cache_after = [''AAPL'' \<mapsto> \<lparr>price = Some NaN, ts = 0\<rparr>],
      fetches = [GlobalQuote ''AAPL'' ''demo'']\<rparr>"
  by (simp add: parse_NA fetchCurrentPrice_def Let_def upper_AAPL refresh_def try_fetch_def
        answering_def extract_quote_payload)

text \<open>
  C6, amended. Without a fresh entry, with an API key configured and a fetch that
  yields a payload: the call stores, with the current time, and returns the price the
  payload stands for. That is absent when the price field is missing or falsy (and when
  the payload is \<^verbatim>\<open>null\<close>), and otherwise whatever \<^verbatim>\<open>parseFloat\<close> makes of the field:
  the number at the head of the text, or \<open>NaN\<close> or an infinity.
\<close>

theorem fetched_price_is_stored_as_parsed:
  assumes "\<not> has_fresh_entry priceCache (toUpperCase s) now"
    and "apiKey = Some k" and "k \<noteq> []"
    and "net (GlobalQuote (toUpperCase s) k) = Resolves data"
  shows "fetchCurrentPrice apiKey net now priceCache s =
           \<lparr>result = price_of_payload data,
            cache_after =
              priceCache(toUpperCase s \<mapsto> \<lparr>price = price_of_payload data, ts = now\<rparr>),
            fetches = [GlobalQuote (toUpperCase s) k]\<rparr>"
proof (cases "data = JNull")
  case True
  then have "price_of_payload data = None"
    by (simp add: price_of_payload_def price_field_def)
  with True assms show ?thesis
    by (simp add: fetch_not_fresh refresh_def try_fetch_resolves)
next
  case False
  with assms show ?thesis
    by (simp add: fetch_not_fresh refresh_def try_fetch_resolves)
qed

theorem fetched_price_is_stored_as_parsed_witness:
  "fetchCurrentPrice (Some ''demo'') (answering (quote_payload ''150.00'')) 60000 stale_cache
     ''AAPL'' =
     \<lparr>result = Some (Num 150),
      cache_after = stale_cache(''AAPL'' \<mapsto> \<lparr>price = Some (Num 150), ts = 60000\<rparr>),
      fetches = [GlobalQuote ''AAPL'' ''demo'']\<rparr> \<and>
   fetchCurrentPrice (Some ''demo'') (answering (quote_payload '''')) 60000 stale_cache ''AAPL'' =
     \<lparr>result = None,
      cache_after = stale_cache(''AAPL'' \<mapsto> \<lparr>price = None, ts = 60000\<rparr>),
      fetches = [GlobalQuote ''AAPL'' ''demo'']\<rparr>"
proof -
  have d: "''demo'' \<noteq> []"
    by simp
  have b: "answering (quote_payload t) (GlobalQuote (toUpperCase ''AAPL'') ''demo'') =
             Resolves (quote_payload t)" for t
    by (simp add: answering_def)
  from fetched_price_is_stored_as_parsed
         [where s = "''AAPL''" and k = "''demo''" and apiKey = "Some ''demo''"
            and net = "answering (quote_payload ''150.00'')"
            and data = "quote_payload ''150.00''"
            and priceCache = stale_cache and now = 60000,
          OF stale_cache_stale refl d b]
       fetched_price_is_stored_as_parsed
         [where s = "''AAPL''" and k = "''demo''" and apiKey = "Some ''demo''"
            and net = "answering (quote_payload '''')"
            and data = "quote_payload ''''"
            and priceCache = stale_cache and now = 60000,
          OF stale_cache_stale refl d b]
  show ?thesis
    by (simp add: price_of_quote_payload parse_150 upper_AAPL)
qed

text \<open>
  C9. For two spellings of a symbol that differ only in the case of their letters:
  both have the same cache key; a call under either spelling, from the same cache, at
  the same time and with the same network, returns the same value, leaves the same
  cache and sends the same requests; and the entry a call under the first spelling
  leaves is found under the key of the second.
\<close>

theorem case_variants_share_cache_entry:
  assumes "differ_only_in_case s1 s2"
  shows "toUpperCase s1 = toUpperCase s2
       \<and> fetchCurrentPrice apiKey net now priceCache s1 =
           fetchCurrentPrice apiKey net now priceCache s2
       \<and> map_option price
           (cache_after (fetchCurrentPrice apiKey net now priceCache s1) (toUpperCase s2)) =
         Some (result (fetchCurrentPrice apiKey net now priceCache s1))"
proof -
  from assms have k: "toUpperCase s1 = toUpperCase s2"
    by (rule differ_only_in_case_upper)
  then have "fetchCurrentPrice apiKey net now priceCache s1 =
             fetchCurrentPrice apiKey net now priceCache s2"
    by (simp add: fetchCurrentPrice_def)
  moreover have "map_option price
        (cache_after (fetchCurrentPrice apiKey net now priceCache s1) (toUpperCase s2)) =
      Some (result (fetchCurrentPrice apiKey net now priceCache s1))"
    using fetch_leaves_entry [of apiKey net now priceCache s1] k by simp
  ultimately show ?thesis
    using k by simp
qed

theorem case_variants_share_cache_entry_witness:
  "differ_only_in_case ''aapl'' ''AAPL'' \<and>
   toUpperCase ''aapl'' = toUpperCase ''AAPL'' \<and>
   fetchCurrentPrice (Some ''demo'') (answering (quote_payload ''150.00'')) 0 Map.empty ''aapl'' =
   fetchCurrentPrice (Some ''demo'') (answering (quote_payload ''150.00'')) 0 Map.empty ''AAPL'' \<and>
   cache_after
     (fetchCurrentPrice (Some ''demo'') (answering (quote_payload ''150.00'')) 0 Map.empty ''aapl'')
     ''AAPL'' = Some \<lparr>price = Some (Num 150), ts = 0\<rparr>"
proof -
  have "fetchCurrentPrice (Some ''demo'') (answering (quote_payload ''150.00'')) 0 Map.empty ''aapl'' =
          \<lparr>result = Some (Num 150),
           cache_after = [''AAPL'' \<mapsto> \<lparr>price = Some (Num 150), ts = 0\<rparr>],
           fetches = [GlobalQuote ''AAPL'' ''demo'']\<rparr>"
    by (simp add: fetchCurrentPrice_def Let_def upper_aapl refresh_def try_fetch_def
          answering_def extract_quote_payload parse_150)
  then have c3: "cache_after
       (fetchCurrentPrice (Some ''demo'') (answering (quote_payload ''150.00'')) 0 Map.empty ''aapl'')
       ''AAPL'' = Some \<lparr>price = Some (Num 150), ts = 0\<rparr>"
    by simp
  note shared =
    case_variants_share_cache_entry
      [OF aapl_differs_in_case, of "Some ''demo''" "answering (quote_payload ''150.00'')" 0
         Map.empty]
  from shared aapl_differs_in_case c3 show ?thesis
    by blast
qed

section \<open>The portfolio view\<close>

subsection \<open>Rounding\<close>

lemma floor_add_half:
  fixes y :: rat
  shows "\<lfloor>y + 1 / 2\<rfloor> = (if y - of_int \<lfloor>y\<rfloor> < 1 / 2 then \<lfloor>y\<rfloor> else \<lfloor>y\<rfloor> + 1)"
proof (cases "y - of_int \<lfloor>y\<rfloor> < 1 / 2")
  case True
  have "\<lfloor>y + 1 / 2\<rfloor> = \<lfloor>y\<rfloor>"
  proof (rule floor_unique)
    show "of_int \<lfloor>y\<rfloor> \<le> y + 1 / 2"
      using of_int_floor_le [of y] by linarith
    show "y + 1 / 2 < of_int \<lfloor>y\<rfloor> + 1"
      using True by linarith
  qed
  with True show ?thesis
    by simp
next
  case False
  have "\<lfloor>y + 1 / 2\<rfloor> = \<lfloor>y\<rfloor> + 1"
  proof (rule floor_unique)
    show "of_int (\<lfloor>y\<rfloor> + 1) \<le> y + 1 / 2"
      using False by simp
    show "y + 1 / 2 < of_int (\<lfloor>y\<rfloor> + 1) + 1"
      using floor_correct [of y] by simp
  qed
  with False show ?thesis
    by simp
qed

lemma nearest_scaled_floor: "nearest_scaled f x = \<lfloor>x * 10 ^ f + 1 / 2\<rfloor>"
  unfolding nearest_scaled_def Let_def by (rule floor_add_half [symmetric])

lemma floor_half_rat: "\<lfloor>(1::rat) / 2\<rfloor> = 0"
  by (rule floor_unique) simp_all

text \<open>What \<^verbatim>\<open>Number(x.toFixed(f))\<close> computes is rounding half away from zero.\<close>

lemma Number_toFixed_round: "Number_toFixed f v = js_round f v"
proof (cases v)
  case (Num x)
  then show ?thesis
    by (auto simp: nearest_scaled_floor round_half_away_def sgn_if floor_half_rat)
qed simp_all

text \<open>
  The rounded value is a multiple of \<open>10^-f\<close> and lies within half a unit of the last
  place of the value.
\<close>

lemma round_half_away_multiple: "\<exists>n::int. round_half_away f x = of_int n / 10 ^ f"
proof (cases "x < 0")
  case True
  then have "round_half_away f x = of_int (- \<lfloor>\<bar>x\<bar> * 10 ^ f + 1 / 2\<rfloor>) / 10 ^ f"
    by (simp add: round_half_away_def)
  then show ?thesis ..
next
  case False
  then have "round_half_away f x = of_int (if x = 0 then 0 else \<lfloor>\<bar>x\<bar> * 10 ^ f + 1 / 2\<rfloor>) / 10 ^ f"
    by (simp add: round_half_away_def sgn_if)
  then show ?thesis ..
qed

lemma round_half_away_near: "\<bar>round_half_away f x - x\<bar> \<le> 1 / (2 * 10 ^ f)"
proof -
  define p :: rat where "p = 10 ^ f"
  have p: "0 < p"
    by (simp add: p_def)
  define n where "n = \<lfloor>\<bar>x\<bar> * p + 1 / 2\<rfloor>"
  have n1: "of_int n \<le> \<bar>x\<bar> * p + 1 / 2" and n2: "\<bar>x\<bar> * p + 1 / 2 < of_int n + 1"
    unfolding n_def using floor_correct [of "\<bar>x\<bar> * p + 1 / 2"] by simp_all
  have "\<bar>of_int n - \<bar>x\<bar> * p\<bar> \<le> 1 / 2"
    using n1 n2 by linarith
  then have "\<bar>of_int n - \<bar>x\<bar> * p\<bar> / p \<le> (1 / 2) / p"
    using p by (intro divide_right_mono) simp_all
  moreover have "\<bar>of_int n - \<bar>x\<bar> * p\<bar> / p = \<bar>(of_int n - \<bar>x\<bar> * p) / p\<bar>"
    using p by (simp add: abs_divide)
  moreover have "(of_int n - \<bar>x\<bar> * p) / p = of_int n / p - \<bar>x\<bar>"
    using p by (simp add: diff_divide_distrib)
  ultimately have a: "\<bar>of_int n / p - \<bar>x\<bar>\<bar> \<le> 1 / (2 * p)"
    by simp
  have "round_half_away f x = sgn x * (of_int n / p)"
    by (simp add: round_half_away_def n_def p_def)
  moreover have "\<bar>sgn x * (of_int n / p) - x\<bar> \<le> 1 / (2 * p)"
  proof (cases "x = 0")
    case True
    then show ?thesis
      using p by simp
  next
    case False
    then have "sgn x * (of_int n / p) - x = sgn x * (of_int n / p - \<bar>x\<bar>)"
      by (simp add: algebra_simps sgn_if)
    moreover have "\<bar>sgn x\<bar> = 1"
      using False by (simp add: sgn_if)
    ultimately show ?thesis
      using a by (simp add: abs_mult)
  qed
  ultimately show ?thesis
    by (simp add: p_def)
qed

subsection \<open>Sums of numbers\<close>






subsection \<open>The rows of the view\<close>

lemma portfolio_loop_Cons:
  "fst (portfolio_loop apiKey env i (r # rs) priceCache) =
     make_position r
       (result (fetchCurrentPrice apiKey (snd (env i)) (fst (env i)) priceCache (row_symbol r)))
     # fst (portfolio_loop apiKey env (Suc i) rs
              (cache_after
                (fetchCurrentPrice apiKey (snd (env i)) (fst (env i)) priceCache (row_symbol r))))"
  by (simp add: Let_def split: prod.splits)

lemma loop_positions:
  "p \<in> set (fst (portfolio_loop apiKey env i rows priceCache)) \<Longrightarrow>
   \<exists>r c. r \<in> set rows \<and> p = make_position r c"
proof (induction rows arbitrary: i priceCache)
  case Nil
  then show ?case
    by simp
next
  case (Cons r rs)
  from Cons.prems consider
      (head) "p = make_position r
         (result (fetchCurrentPrice apiKey (snd (env i)) (fst (env i)) priceCache (row_symbol r)))"
    | (tail) "p \<in> set (fst (portfolio_loop apiKey env (Suc i) rs
         (cache_after
           (fetchCurrentPrice apiKey (snd (env i)) (fst (env i)) priceCache (row_symbol r)))))"
    unfolding portfolio_loop_Cons by auto
  then show ?case
  proof cases
    case head
    then show ?thesis
      by auto
  next
    case tail
    from Cons.IH [OF tail] show ?thesis
      by auto
  qed
qed

lemma loop_symbols:
  "map symbol (fst (portfolio_loop apiKey env i rows priceCache)) = map row_symbol rows"
proof (induction rows arbitrary: i priceCache)
  case Nil
  show ?case
    by simp
next
  case (Cons r rs)
  show ?case
    unfolding portfolio_loop_Cons by (simp add: Cons.IH make_position_def Let_def)
qed

lemma make_position_fields:
  "netQty (make_position r c) = to_binary64 (net_qty r)"
  "currentPrice (make_position r c) = c"
  "marketValue (make_position r c) =
     (case c of
        None \<Rightarrow> None
      | Some x \<Rightarrow> Some (Number_toFixed 4 (js_mul (to_binary64 (net_qty r)) x)))"
  by (simp_all add: make_position_def Let_def)

lemma fetch_aapl:
  "fetchCurrentPrice (Some ''demo'') (aapl_only t) 0 Map.empty ''AAPL'' =
     \<lparr>result = (if t = [] then None else Some (parseFloat t)),
      cache_after =
        [''AAPL'' \<mapsto> \<lparr>price = (if t = [] then None else Some (parseFloat t)), ts = 0\<rparr>],
      fetches = [GlobalQuote ''AAPL'' ''demo'']\<rparr>"
  by (simp add: fetchCurrentPrice_def Let_def upper_AAPL refresh_def try_fetch_def aapl_only_def
        extract_quote_payload)

lemma fetch_msft:
  assumes "pc ''MSFT'' = None"
  shows "fetchCurrentPrice (Some ''demo'') (aapl_only t) 0 pc ''MSFT'' =
     \<lparr>result = None,
      cache_after = pc(''MSFT'' \<mapsto> \<lparr>price = None, ts = 0\<rparr>),
      fetches = [GlobalQuote ''MSFT'' ''demo'']\<rparr>"
  using assms
  by (simp add: fetchCurrentPrice_def Let_def upper_MSFT refresh_def try_fetch_def aapl_only_def)

lemma view_ledger_2:
  "t \<noteq> [] \<Longrightarrow>
   portfolio (get_portfolio (Some ''demo'') (at_time_0 (aapl_only t)) ledger_2 Map.empty) =
     [\<lparr>symbol = ''AAPL'', netQty = Num 3, avgPrice = Some (Num 40),
       currentPrice = Some (parseFloat t),
       marketValue = Some (Number_toFixed 4 (js_mul (Num 3) (parseFloat t)))\<rparr>,
      \<lparr>symbol = ''MSFT'', netQty = Num 10, avgPrice = Some (Num 5),
       currentPrice = None, marketValue = None\<rparr>]"
  by (simp add: get_portfolio_def query_ledger_2 at_time_0_def fetch_aapl fetch_msft Let_def
        make_position_def to_binary64_small)


text \<open>
  C7, as the claim states its second part: when the current price is present, the
  market value is the net quantity times the current price, rounded to 4 decimal
  places. With 3 shares and the price text \<^verbatim>\<open>0.00335\<close> the row's net quantity is \<open>3\<close>
  and its current price is the binary64 number nearest to \<open>0.00335\<close>. Their product,
  rounded to 4 decimal places, is \<open>0.0101\<close> (and so is \<open>3 \<times> 0.00335\<close>). The product
  the program computes is rounded to binary64 first and falls below \<open>0.01005\<close>, so
  the market value is the binary64 number nearest to \<open>0.01\<close>, which is not the one
  nearest to \<open>0.0101\<close>.
\<close>

theorem market_value_is_not_the_rounded_exact_product:
  "portfolio (get_portfolio (Some ''demo'') (at_time_0 (aapl_only ''0.00335'')) ledger_2 Map.empty) =
     [\<lparr>symbol = ''AAPL'', netQty = Num 3, avgPrice = Some (Num 40),
       currentPrice = Some (Num (7724574080865875 / 2305843009213693952)),
       marketValue = Some (Num (5764607523034235 / 576460752303423488))\<rparr>,
      \<lparr>symbol = ''MSFT'', netQty = Num 10, avgPrice = Some (Num 5),
       currentPrice = None, marketValue = None\<rparr>] \<and>
   round_half_away 4 (3 * (7724574080865875 / 2305843009213693952)) = 101 / 10000 \<and>
   round_half_away 4 (3 * (335 / 100000)) = 101 / 10000 \<and>
   to_binary64 (101 / 10000) = Num (5822253598264577 / 576460752303423488) \<and>
   to_binary64 (1 / 100) = Num (5764607523034235 / 576460752303423488)"
proof -
  have p: "js_mul (Num 3) (Num (7724574080865875 / 2305843009213693952)) =
             Num (2896715280324703 / 288230376151711744)"
    by (simp add: binary64_eval)
  have m: "Number_toFixed 4 (Num (2896715280324703 / 288230376151711744)) =
             Num (5764607523034235 / 576460752303423488)"
    by (simp add: nearest_scaled_def binary64_eval)
  have v: "portfolio
       (get_portfolio (Some ''demo'') (at_time_0 (aapl_only ''0.00335'')) ledger_2 Map.empty) =
     [\<lparr>symbol = ''AAPL'', netQty = Num 3, avgPrice = Some (Num 40),
       currentPrice = Some (Num (7724574080865875 / 2305843009213693952)),
       marketValue = Some (Num (5764607523034235 / 576460752303423488))\<rparr>,
      \<lparr>symbol = ''MSFT'', netQty = Num 10, avgPrice = Some (Num 5),
       currentPrice = None, marketValue = None\<rparr>]"
    using view_ledger_2 [of "''0.00335''"] by (simp only: parse_0_00335 p m) simp
  have r1: "round_half_away 4 (3 * (7724574080865875 / 2305843009213693952)) = 101 / 10000"
    by (simp add: round_half_away_def floor_rat_numeral)
  have r2: "round_half_away 4 (3 * (335 / 100000)) = 101 / 10000"
    by (simp add: round_half_away_def floor_rat_numeral)
  from v r1 r2 to_binary64_101 to_binary64_hundredth show ?thesis
    by blast
qed

text \<open>
  C7, amended. For every row of the view built by the handler: the market value is
  absent exactly when the current price is absent, and when the current price is
  present the market value is the binary64 product of the net quantity and the
  current price, rounded to 4 decimal places (the exact value of that product, half
  away from zero) and held as the nearest binary64 number; a product of magnitude
  \<open>10^21\<close> or more, \<open>NaN\<close> and the infinities are kept as they are.
\<close>

theorem market_value_absent_iff_price_absent:
  "\<forall>p\<in>set (portfolio (get_portfolio apiKey env trades priceCache)).
     (marketValue p = None \<longleftrightarrow> currentPrice p = None) \<and>
     (\<forall>c. currentPrice p = Some c \<longrightarrow>
          marketValue p = Some (js_round 4 (js_mul (netQty p) c)))"
proof
  fix p
  assume "p \<in> set (portfolio (get_portfolio apiKey env trades priceCache))"
  then have "p \<in> set (fst (portfolio_loop apiKey env 0 (aggregation_query trades) priceCache))"
    by (simp add: get_portfolio_def Let_def)
  then obtain r c where "p = make_position r c"
    using loop_positions by blast
  then show "(marketValue p = None \<longleftrightarrow> currentPrice p = None) \<and>
     (\<forall>c. currentPrice p = Some c \<longrightarrow>
          marketValue p = Some (js_round 4 (js_mul (netQty p) c)))"
    by (simp add: make_position_fields Number_toFixed_round split: option.splits)
qed

theorem market_value_absent_iff_price_absent_witness:
  "portfolio (get_portfolio (Some ''demo'') (at_time_0 (aapl_only ''50.12346'')) ledger_2 Map.empty) =
     [\<lparr>symbol = ''AAPL'', netQty = Num 3, avgPrice = Some (Num 40),
       currentPrice = Some (Num (7054249868078749 / 140737488355328)),
       marketValue = Some (Num (5290688104746503 / 35184372088832))\<rparr>,
      \<lparr>symbol = ''MSFT'', netQty = Num 10, avgPrice = Some (Num 5),
       currentPrice = None, marketValue = None\<rparr>] \<and>
   js_round 4 (js_mul (Num 3) (Num (7054249868078749 / 140737488355328))) =
     Num (5290688104746503 / 35184372088832) \<and>
   to_binary64 (1503704 / 10000) = Num (5290688104746503 / 35184372088832)"
proof -
  let ?c = "Num (7054249868078749 / 140737488355328)"
  let ?v = "get_portfolio (Some ''demo'') (at_time_0 (aapl_only ''50.12346'')) ledger_2 Map.empty"
  let ?p = "\<lparr>symbol = ''AAPL'', netQty = Num 3, avgPrice = Some (Num 40),
       currentPrice = Some ?c,
       marketValue = Some (Number_toFixed 4 (js_mul (Num 3) ?c))\<rparr>"
  have v: "portfolio ?v =
     [?p, \<lparr>symbol = ''MSFT'', netQty = Num 10, avgPrice = Some (Num 5),
            currentPrice = None, marketValue = None\<rparr>]"
    using view_ledger_2 [of "''50.12346''"] by (simp only: parse_50_12346) simp
  have p: "js_mul (Num 3) ?c = Num (2645343700529531 / 17592186044416)"
    by (simp add: binary64_eval)
  have m: "Number_toFixed 4 (Num (2645343700529531 / 17592186044416)) =
             Num (5290688104746503 / 35184372088832)"
    by (simp add: nearest_scaled_def binary64_eval)
  have t: "to_binary64 (1503704 / 10000) = Num (5290688104746503 / 35184372088832)"
    by (simp add: binary64_eval)
  from v have "?p \<in> set (portfolio ?v)"
    by simp
  with market_value_absent_iff_price_absent
         [of "Some ''demo''" "at_time_0 (aapl_only ''50.12346'')" ledger_2 Map.empty]
  have "marketValue ?p = Some (js_round 4 (js_mul (netQty ?p) ?c))"
    by (metis position.select_convs(4))
  then have r: "js_round 4 (js_mul (Num 3) ?c) = Num (5290688104746503 / 35184372088832)"
    by (simp only: position.select_convs option.inject p m)
  from v have "portfolio ?v =
     [\<lparr>symbol = ''AAPL'', netQty = Num 3, avgPrice = Some (Num 40),
       currentPrice = Some ?c,
       marketValue = Some (Num (5290688104746503 / 35184372088832))\<rparr>,
      \<lparr>symbol = ''MSFT'', netQty = Num 10, avgPrice = Some (Num 5),
       currentPrice = None, marketValue = None\<rparr>]"
    by (simp only: p m)
  with r t show ?thesis
    by blast
qed




end
